theory Spec2Isabelle
  imports Main
begin

section \<open>The sequential simulator mixin of unified-planning\<close>

text \<open>
  This theory embeds \<^verbatim>\<open>SequentialSimulatorMixin\<close>
  (\<^verbatim>\<open>unified_planning/engines/mixins/sequential_simulator.py\<close>) and proves
  properties of its public methods.

  Conventions of the embedding.
  \<^item> A Python exception is a value of \<open>error\<close>; a method that can raise returns
    \<open>error + 'a\<close>, with \<open>Inl\<close> carrying the exception (\<open>OtherError\<close> stands
    for an exception of any class the mixin does not name). Only the class of an
    exception is kept, not its message (so the \<^verbatim>\<open>method_name\<close> argument of
    the grounding resolution, which only feeds the message, has no counterpart).
  \<^item> A method \<^verbatim>\<open>_m\<close> of the source is written \<open>u_m\<close>, since a name
    cannot start with an underscore here. \<^verbatim>\<open>apply\<close> is written
    \<open>apply_action\<close>, \<^verbatim>\<open>__init__\<close> is \<open>init\<close>.
  \<^item> The methods the mixin leaves to the concrete engine (they raise
    \<^verbatim>\<open>NotImplementedError\<close> in the mixin) are fields of the \<open>engine\<close>
    record, so that every statement below holds for every engine.
  \<^item> Python's \<^verbatim>\<open>None\<close> as the result of \<^verbatim>\<open>apply\<close> is
    \<open>None :: 's option\<close>.
\<close>

subsection \<open>Data the mixin reads\<close>

datatype error =
    UPUsageError
  | UPInvalidActionError
  | NotImplementedError
  | AssertionError
  | OtherError string

text \<open>An \<^verbatim>\<open>FNode\<close>: only its \<^verbatim>\<open>type\<close> attribute is read by the mixin.\<close>

record ('n, 'ty) fnode =
  content :: 'n
  fnode_type :: 'ty

text \<open>
  An \<^verbatim>\<open>Expression\<close> is either an \<^verbatim>\<open>FNode\<close> already, or some other value
  (a fluent, an object, a Python constant) that the expression manager can promote.
\<close>

datatype ('n, 'ty, 'o) expression =
    FNodeE "('n, 'ty) fnode"
  | OtherE 'o

record 'ty parameter =
  param_name :: string
  param_type :: 'ty

text \<open>An action schema: the mixin reads its \<^verbatim>\<open>parameters\<close> only.\<close>

record 'ty action =
  action_name :: string
  parameters :: "'ty parameter list"

record ('n, 'ty) action_instance =
  action :: "'ty action"
  actual_parameters :: "('n, 'ty) fnode list"

text \<open>The argument \<^verbatim>\<open>action_or_action_instance\<close> of the public methods.\<close>

datatype ('n, 'ty) action_or_action_instance =
    Action "'ty action"
  | ActionInstance "('n, 'ty) action_instance"

text \<open>
  The argument \<^verbatim>\<open>parameters\<close> of the public methods:
  \<^verbatim>\<open>None\<close>, a sequence of expressions, or one expression that is not a sequence.
\<close>

datatype ('n, 'ty, 'o) parameters_arg =
    NoParameters
  | ParameterSeq "('n, 'ty, 'o) expression list"
  | OneParameter "('n, 'ty, 'o) expression"

text \<open>
  What the mixin consumes from the environment of the problem, whose code is outside this
  file and is therefore left as a parameter:
  \<^verbatim>\<open>environment.expression_manager.auto_promote\<close> and the method
  \<^verbatim>\<open>is_compatible\<close> of the type objects
  (\<open>is_compatible env t t'\<close> stands for \<^verbatim>\<open>t.is_compatible(t')\<close>).
\<close>

record ('n, 'ty, 'o) environment =
  auto_promote :: "('n, 'ty, 'o) expression list \<Rightarrow> ('n, 'ty) fnode list"
  is_compatible :: "'ty \<Rightarrow> 'ty \<Rightarrow> bool"

record ('k, 'n, 'ty, 'o) problem =
  kind :: 'k
  environment :: "('n, 'ty, 'o) environment"

subsection \<open>The engine and the simulator object\<close>

text \<open>
  The attributes of \<^verbatim>\<open>Engine\<close> read by the constructor, and the methods that
  the mixin declares and the concrete engine implements. \<open>is_engine\<close> is the truth value
  of the two assertions of the constructor.
\<close>

record ('k, 'n, 'ty, 's) engine =
  engine_name :: string
  is_engine :: bool
  skip_checks :: bool
  error_on_failed_checks :: bool
  supports :: "'k \<Rightarrow> bool"
  u_get_initial_state :: "error + 's"
  u_get_unsatisfied_conditions ::
    "'s \<Rightarrow> 'ty action \<Rightarrow> ('n, 'ty) fnode list \<Rightarrow> bool \<Rightarrow> error + ('n, 'ty) fnode list"
  u_apply :: "'s \<Rightarrow> 'ty action \<Rightarrow> ('n, 'ty) fnode list \<Rightarrow> error + 's option"
  u_apply_unsafe :: "'s \<Rightarrow> 'ty action \<Rightarrow> ('n, 'ty) fnode list \<Rightarrow> error + 's option"
  u_get_applicable_actions :: "'s \<Rightarrow> error + ('ty action \<times> ('n, 'ty) fnode list) list"
  u_get_unsatisfied_goals :: "'s \<Rightarrow> bool \<Rightarrow> error + ('n, 'ty) fnode list"

text \<open>The simulator object: the engine together with \<^verbatim>\<open>self._problem\<close>.\<close>

record ('k, 'n, 'ty, 'o, 's) simulator = "('k, 'n, 'ty, 's) engine" +
  u_problem :: "('k, 'n, 'ty, 'o) problem"

text \<open>The methods as the mixin itself defines them: each raises \<^verbatim>\<open>NotImplementedError\<close>.\<close>

definition mixin_methods :: "string \<Rightarrow> bool \<Rightarrow> bool \<Rightarrow> ('k \<Rightarrow> bool) \<Rightarrow> ('k, 'n, 'ty, 's) engine" where
  "mixin_methods nm skip_flag error_flag supported =
     \<lparr> engine_name = nm, is_engine = True, skip_checks = skip_flag,
       error_on_failed_checks = error_flag, supports = supported,
       u_get_initial_state = Inl NotImplementedError,
       u_get_unsatisfied_conditions = (\<lambda>state act params early_termination. Inl NotImplementedError),
       u_apply = (\<lambda>state act params. Inl NotImplementedError),
       u_apply_unsafe = (\<lambda>state act params. Inl NotImplementedError),
       u_get_applicable_actions = (\<lambda>state. Inl NotImplementedError),
       u_get_unsatisfied_goals = (\<lambda>state early_termination. Inl NotImplementedError) \<rparr>"

text \<open>\<^verbatim>\<open>self._problem = problem\<close>: the engine, with the problem stored in it.\<close>

definition with_problem ::
  "('k, 'n, 'ty, 's) engine \<Rightarrow> ('k, 'n, 'ty, 'o) problem \<Rightarrow> ('k, 'n, 'ty, 'o, 's) simulator" where
  "with_problem self p =
     \<lparr> engine_name = engine_name self, is_engine = is_engine self,
       skip_checks = skip_checks self,
       error_on_failed_checks = error_on_failed_checks self, supports = supports self,
       u_get_initial_state = u_get_initial_state self,
       u_get_unsatisfied_conditions = u_get_unsatisfied_conditions self,
       u_apply = u_apply self,
       u_apply_unsafe = u_apply_unsafe self,
       u_get_applicable_actions = u_get_applicable_actions self,
       u_get_unsatisfied_goals = u_get_unsatisfied_goals self,
       u_problem = p \<rparr>"

text \<open>
  \<^verbatim>\<open>__init__\<close>. The result is the exception raised, or the constructed object
  together with the warnings emitted by \<^verbatim>\<open>warn\<close>.
\<close>

definition failed_check_msg :: "string \<Rightarrow> string" where
  "failed_check_msg nm =
     ''We cannot establish whether '' @ nm @ '' is able to handle this problem!''"

definition init ::
  "('k, 'n, 'ty, 's) engine \<Rightarrow> ('k, 'n, 'ty, 'o) problem
     \<Rightarrow> error + (('k, 'n, 'ty, 'o, 's) simulator \<times> string list)" where
  "init self p =
     (if \<not> is_engine self then Inl AssertionError
      else if \<not> skip_checks self \<and> \<not> supports self (kind p) then
        (if error_on_failed_checks self then Inl UPUsageError
         else Inr (with_problem self p, [failed_check_msg (engine_name self)]))
      else Inr (with_problem self p, []))"

subsection \<open>Grounding resolution\<close>

text \<open>
  \<^verbatim>\<open>_handle_parameters_polymorphism\<close>. The assertion
  \<^verbatim>\<open>isinstance(act, up.model.Action)\<close> holds by the type of the argument.
\<close>

definition u_handle_parameters_polymorphism ::
  "('k, 'n, 'ty, 'o, 's) simulator \<Rightarrow> ('n, 'ty) action_or_action_instance
     \<Rightarrow> ('n, 'ty, 'o) parameters_arg \<Rightarrow> error + ('ty action \<times> ('n, 'ty) fnode list)" where
  "u_handle_parameters_polymorphism self action_or_action_instance parameters_arg =
     (case action_or_action_instance of
        ActionInstance inst \<Rightarrow>
          (if parameters_arg \<noteq> NoParameters then Inl UPUsageError
           else Inr (action inst, actual_parameters inst))
      | Action act \<Rightarrow>
          (let env = environment (u_problem self);
               params = (case parameters_arg of
                           NoParameters \<Rightarrow> []
                         | ParameterSeq ps \<Rightarrow> auto_promote env ps
                         | OneParameter p \<Rightarrow> auto_promote env [p])
           in if length params \<noteq> length (parameters act)
                 \<or> list_ex (\<lambda>(p, ap). \<not> is_compatible env (param_type ap) (fnode_type p))
                      (zip params (parameters act))
              then Inl UPUsageError
              else Inr (act, params)))"

subsection \<open>The public methods\<close>

definition get_initial_state :: "('k, 'n, 'ty, 'o, 's) simulator \<Rightarrow> error + 's" where
  "get_initial_state self = u_get_initial_state self"

definition get_unsatisfied_conditions ::
  "('k, 'n, 'ty, 'o, 's) simulator \<Rightarrow> 's \<Rightarrow> ('n, 'ty) action_or_action_instance
     \<Rightarrow> ('n, 'ty, 'o) parameters_arg \<Rightarrow> bool \<Rightarrow> error + ('n, 'ty) fnode list" where
  "get_unsatisfied_conditions self state action_or_action_instance parameters_arg early_termination =
     (case u_handle_parameters_polymorphism self action_or_action_instance parameters_arg of
        Inl e \<Rightarrow> Inl e
      | Inr (act, params) \<Rightarrow>
          u_get_unsatisfied_conditions self state act params early_termination)"

text \<open>
  \<^verbatim>\<open>_is_applicable\<close> calls the public \<^verbatim>\<open>get_unsatisfied_conditions\<close>
  with the schema and the tuple of nodes, so the grounding resolution runs a second time
  there. Of the exceptions of that call, \<^verbatim>\<open>UPInvalidActionError\<close> alone is caught.
\<close>

definition u_is_applicable ::
  "('k, 'n, 'ty, 'o, 's) simulator \<Rightarrow> 's \<Rightarrow> 'ty action \<Rightarrow> ('n, 'ty) fnode list \<Rightarrow> error + bool" where
  "u_is_applicable self state act params =
     (case get_unsatisfied_conditions self state (Action act) (ParameterSeq (map FNodeE params)) True of
        Inr unsatisfied \<Rightarrow> Inr (length unsatisfied = 0)
      | Inl UPInvalidActionError \<Rightarrow> Inr False
      | Inl e \<Rightarrow> Inl e)"

definition is_applicable ::
  "('k, 'n, 'ty, 'o, 's) simulator \<Rightarrow> 's \<Rightarrow> ('n, 'ty) action_or_action_instance
     \<Rightarrow> ('n, 'ty, 'o) parameters_arg \<Rightarrow> error + bool" where
  "is_applicable self state action_or_action_instance parameters_arg =
     (case u_handle_parameters_polymorphism self action_or_action_instance parameters_arg of
        Inl e \<Rightarrow> Inl e
      | Inr (act, params) \<Rightarrow> u_is_applicable self state act params)"

definition apply_action ::
  "('k, 'n, 'ty, 'o, 's) simulator \<Rightarrow> 's \<Rightarrow> ('n, 'ty) action_or_action_instance
     \<Rightarrow> ('n, 'ty, 'o) parameters_arg \<Rightarrow> error + 's option" where
  "apply_action self state action_or_action_instance parameters_arg =
     (case u_handle_parameters_polymorphism self action_or_action_instance parameters_arg of
        Inl e \<Rightarrow> Inl e
      | Inr (act, params) \<Rightarrow> u_apply self state act params)"

definition apply_unsafe ::
  "('k, 'n, 'ty, 'o, 's) simulator \<Rightarrow> 's \<Rightarrow> ('n, 'ty) action_or_action_instance
     \<Rightarrow> ('n, 'ty, 'o) parameters_arg \<Rightarrow> error + 's option" where
  "apply_unsafe self state action_or_action_instance parameters_arg =
     (case u_handle_parameters_polymorphism self action_or_action_instance parameters_arg of
        Inl e \<Rightarrow> Inl e
      | Inr (act, params) \<Rightarrow> u_apply_unsafe self state act params)"

definition get_applicable_actions ::
  "('k, 'n, 'ty, 'o, 's) simulator \<Rightarrow> 's \<Rightarrow> error + ('ty action \<times> ('n, 'ty) fnode list) list" where
  "get_applicable_actions self state = u_get_applicable_actions self state"

definition is_sequential_simulator :: bool where
  "is_sequential_simulator = True"

definition get_unsatisfied_goals ::
  "('k, 'n, 'ty, 'o, 's) simulator \<Rightarrow> 's \<Rightarrow> bool \<Rightarrow> error + ('n, 'ty) fnode list" where
  "get_unsatisfied_goals self state early_termination =
     u_get_unsatisfied_goals self state early_termination"

definition u_is_goal :: "('k, 'n, 'ty, 'o, 's) simulator \<Rightarrow> 's \<Rightarrow> error + bool" where
  "u_is_goal self state =
     (case get_unsatisfied_goals self state True of
        Inl e \<Rightarrow> Inl e
      | Inr unsatisfied \<Rightarrow> Inr (length unsatisfied = 0))"

definition is_goal :: "('k, 'n, 'ty, 'o, 's) simulator \<Rightarrow> 's \<Rightarrow> error + bool" where
  "is_goal self state = u_is_goal self state"

subsection \<open>Notions used in the statements\<close>

text \<open>
  The tuple the grounding resolution builds from the argument \<^verbatim>\<open>parameters\<close>
  when a schema is given (lines 81 to 86 of the source).
\<close>

definition promoted_parameters ::
  "('n, 'ty, 'o) environment \<Rightarrow> ('n, 'ty, 'o) parameters_arg \<Rightarrow> ('n, 'ty) fnode list" where
  "promoted_parameters env parameters_arg =
     (case parameters_arg of
        NoParameters \<Rightarrow> []
      | ParameterSeq ps \<Rightarrow> auto_promote env ps
      | OneParameter p \<Rightarrow> auto_promote env [p])"

text \<open>
  The check of line 87, as the condition under which the resolution succeeds: as many
  parameters as the schema declares, each of a type the declared type is compatible with.
\<close>

definition compatible_with ::
  "('n, 'ty, 'o) environment \<Rightarrow> 'ty action \<Rightarrow> ('n, 'ty) fnode list \<Rightarrow> bool" where
  "compatible_with env act params =
     (length params = length (parameters act) \<and>
      list_all (\<lambda>(p, ap). is_compatible env (param_type ap) (fnode_type p))
        (zip params (parameters act)))"

text \<open>
  Nodes that are expressions already are left as they are by auto-promotion. This is a
  property of the expression manager, stated where a method promotes the same tuple twice.
\<close>

definition promotion_keeps ::
  "('n, 'ty, 'o) environment \<Rightarrow> ('n, 'ty) fnode list \<Rightarrow> bool" where
  "promotion_keeps env params \<longleftrightarrow> auto_promote env (map FNodeE params) = params"

subsection \<open>The engine method behind \<^verbatim>\<open>apply\<close>\<close>

text \<open>
  Modelled from the spec: \<^verbatim>\<open>_apply\<close>, which the mixin only declares (it raises
  \<^verbatim>\<open>NotImplementedError\<close> there) and whose implementation is not in the source
  file. The spec says: "\<^verbatim>\<open>apply(state, action)\<close>: first checks applicability
  via 4.2; if not applicable, returns no successor (a None-like absence value, not an
  error). If applicable, delegates to the unsafe path."
\<close>

definition spec_u_apply ::
  "('k, 'n, 'ty, 'o, 's) simulator \<Rightarrow> 's \<Rightarrow> 'ty action \<Rightarrow> ('n, 'ty) fnode list \<Rightarrow> error + 's option" where
  "spec_u_apply self state act params =
     (case u_is_applicable self state act params of
        Inl e \<Rightarrow> Inl e
      | Inr False \<Rightarrow> Inr None
      | Inr True \<Rightarrow> u_apply_unsafe self state act params)"

text \<open>A simulator whose \<^verbatim>\<open>_apply\<close> is the one the spec describes.\<close>

definition with_spec_apply ::
  "('k, 'n, 'ty, 'o, 's) simulator \<Rightarrow> ('k, 'n, 'ty, 'o, 's) simulator" where
  "with_spec_apply self = self\<lparr>u_apply := spec_u_apply self\<rparr>"

subsection \<open>A concrete simulator\<close>

text \<open>
  The scenario of the spec: a fluent \<^verbatim>\<open>at(robot)\<close> over the locations A and B,
  and an action \<^verbatim>\<open>move(to)\<close> with the precondition \<^verbatim>\<open>at(robot) != to\<close>
  and the effect \<^verbatim>\<open>at(robot) := to\<close>. A state is the value of the fluent. A
  location outside the domain makes the action invalid. The action \<^verbatim>\<open>clash\<close>
  has no precondition and two effects that assign different values to the fluent, so its
  unsafe application yields no successor.
\<close>

definition location :: "string \<Rightarrow> (string, string) fnode" where
  "location l = \<lparr>content = l, fnode_type = ''location''\<rparr>"

definition demo_promote :: "(string, string, string) expression \<Rightarrow> (string, string) fnode" where
  "demo_promote e = (case e of FNodeE f \<Rightarrow> f | OtherE obj \<Rightarrow> location obj)"

definition demo_environment :: "(string, string, string) environment" where
  "demo_environment = \<lparr>auto_promote = map demo_promote, is_compatible = (=)\<rparr>"

definition demo_problem :: "(string, string, string, string) problem" where
  "demo_problem = \<lparr>kind = ''classical'', environment = demo_environment\<rparr>"

definition move :: "string action" where
  "move = \<lparr>action_name = ''move'',
           parameters = [\<lparr>param_name = ''to'', param_type = ''location''\<rparr>]\<rparr>"

definition clash :: "string action" where
  "clash = \<lparr>action_name = ''clash'', parameters = []\<rparr>"

definition demo_conditions ::
  "string \<Rightarrow> string action \<Rightarrow> (string, string) fnode list \<Rightarrow> bool
     \<Rightarrow> error + (string, string) fnode list" where
  "demo_conditions state act params early_termination =
     (if action_name act = ''move'' then
        (case params of
           [to] \<Rightarrow>
             (if content to \<noteq> ''A'' \<and> content to \<noteq> ''B'' then Inl UPInvalidActionError
              else if content to = state
                then Inr [\<lparr>content = ''at(robot) != to'', fnode_type = ''bool''\<rparr>]
              else Inr [])
         | _ \<Rightarrow> Inl UPInvalidActionError)
      else Inr [])"

definition demo_apply_unsafe ::
  "string \<Rightarrow> string action \<Rightarrow> (string, string) fnode list \<Rightarrow> error + string option" where
  "demo_apply_unsafe state act params =
     (if action_name act = ''move'' then
        (case params of [to] \<Rightarrow> Inr (Some (content to)) | _ \<Rightarrow> Inr None)
      else Inr None)"

definition demo_goals :: "string \<Rightarrow> bool \<Rightarrow> error + (string, string) fnode list" where
  "demo_goals state early_termination =
     (if state = ''B'' then Inr []
      else Inr [\<lparr>content = ''at(robot) == B'', fnode_type = ''bool''\<rparr>])"

definition demo_engine :: "(string, string, string, string) engine" where
  "demo_engine =
     \<lparr> engine_name = ''demo'', is_engine = True, skip_checks = False,
       error_on_failed_checks = True, supports = (\<lambda>k. k = ''classical''),
       u_get_initial_state = Inr ''A'',
       u_get_unsatisfied_conditions = demo_conditions,
       u_apply = (\<lambda>state act params. Inl NotImplementedError),
       u_apply_unsafe = demo_apply_unsafe,
       u_get_applicable_actions = (\<lambda>state. Inl NotImplementedError),
       u_get_unsatisfied_goals = demo_goals \<rparr>"

definition demo :: "(string, string, string, string, string) simulator" where
  "demo = with_problem demo_engine demo_problem"

text \<open>
  Three grounded instances: a well-formed one, one whose parameter has the wrong type, and
  one with a parameter too many.
\<close>

definition move_to :: "string \<Rightarrow> (string, string) action_instance" where
  "move_to l = \<lparr>action = move, actual_parameters = [location l]\<rparr>"

definition mistyped_move :: "(string, string) action_instance" where
  "mistyped_move = \<lparr>action = move, actual_parameters = [\<lparr>content = ''B'', fnode_type = ''int''\<rparr>]\<rparr>"

definition overfull_clash :: "(string, string) action_instance" where
  "overfull_clash = \<lparr>action = clash, actual_parameters = [location ''B'']\<rparr>"

section \<open>Properties\<close>

subsection \<open>Auxiliary facts\<close>

lemmas demo_defs = demo_def with_problem_def demo_engine_def demo_problem_def
  demo_environment_def demo_promote_def location_def move_def clash_def demo_conditions_def
  demo_apply_unsafe_def demo_goals_def
lemmas method_defs = u_handle_parameters_polymorphism_def get_unsatisfied_conditions_def
  u_is_applicable_def is_applicable_def apply_action_def apply_unsafe_def
  get_unsatisfied_goals_def u_is_goal_def is_goal_def

lemma handle_instance:
  "u_handle_parameters_polymorphism self (ActionInstance inst) NoParameters =
     Inr (action inst, actual_parameters inst)"
  by (simp add: u_handle_parameters_polymorphism_def)

lemma handle_instance_with_parameters:
  "parameters_arg \<noteq> NoParameters \<Longrightarrow>
   u_handle_parameters_polymorphism self (ActionInstance inst) parameters_arg = Inl UPUsageError"
  by (simp add: u_handle_parameters_polymorphism_def)

lemma handle_schema:
  "u_handle_parameters_polymorphism self (Action act) parameters_arg =
     (if compatible_with (environment (u_problem self)) act
           (promoted_parameters (environment (u_problem self)) parameters_arg)
      then Inr (act, promoted_parameters (environment (u_problem self)) parameters_arg)
      else Inl UPUsageError)"
  by (auto simp add: u_handle_parameters_polymorphism_def promoted_parameters_def
      compatible_with_def Let_def list_ex_iff list_all_iff split: parameters_arg.splits)

lemma handle_error:
  "u_handle_parameters_polymorphism self a parameters_arg = Inl e \<Longrightarrow> e = UPUsageError"
  by (cases a) (auto simp add: u_handle_parameters_polymorphism_def Let_def split: if_splits)

lemma compatible_with_nth:
  "compatible_with env act params \<longleftrightarrow>
     (length params = length (parameters act) \<and>
      (\<forall>i < length params. is_compatible env (param_type (parameters act ! i)) (fnode_type (params ! i))))"
  by (auto simp add: compatible_with_def list_all_length)

lemma spec_apply_fields [simp]:
  "u_problem (with_spec_apply self) = u_problem self"
  "u_get_unsatisfied_conditions (with_spec_apply self) = u_get_unsatisfied_conditions self"
  "u_apply_unsafe (with_spec_apply self) = u_apply_unsafe self"
  "u_apply (with_spec_apply self) = spec_u_apply self"
  by (simp_all add: with_spec_apply_def)

lemma spec_apply_keeps_resolution:
  "u_handle_parameters_polymorphism (with_spec_apply self) a p = u_handle_parameters_polymorphism self a p"
  by (cases a) (simp_all add: u_handle_parameters_polymorphism_def)

lemma spec_apply_keeps_conditions:
  "get_unsatisfied_conditions (with_spec_apply self) s a p et = get_unsatisfied_conditions self s a p et"
  by (simp add: get_unsatisfied_conditions_def spec_apply_keeps_resolution split: sum.split)

lemma spec_apply_keeps_u_is_applicable:
  "u_is_applicable (with_spec_apply self) s act params = u_is_applicable self s act params"
  by (simp add: u_is_applicable_def spec_apply_keeps_conditions)

lemma spec_apply_keeps_is_applicable:
  "is_applicable (with_spec_apply self) s a p = is_applicable self s a p"
  by (simp add: is_applicable_def spec_apply_keeps_resolution spec_apply_keeps_u_is_applicable split: sum.split)

lemma spec_apply_keeps_apply_unsafe:
  "apply_unsafe (with_spec_apply self) s a p = apply_unsafe self s a p"
  by (simp add: apply_unsafe_def spec_apply_keeps_resolution split: sum.split)

lemma apply_action_spec:
  "apply_action (with_spec_apply self) s a p =
     (case u_handle_parameters_polymorphism self a p of
        Inl e \<Rightarrow> Inl e
      | Inr (act, params) \<Rightarrow> spec_u_apply self s act params)"
  by (simp add: apply_action_def spec_apply_keeps_resolution split: sum.split)

lemma resolved_schema_again:
  assumes "u_handle_parameters_polymorphism self (Action act) p = Inr (act', params)"
    and "promotion_keeps (environment (u_problem self)) params"
  shows "u_handle_parameters_polymorphism self (Action act) (ParameterSeq (map FNodeE params))
           = Inr (act, params)" and "act' = act"
  using assms
  by (auto simp add: handle_schema promoted_parameters_def promotion_keeps_def split: if_splits)

lemma public_methods_resolved:
  assumes "u_handle_parameters_polymorphism self a p = Inr (act, params)"
  shows "is_applicable self s a p = u_is_applicable self s act params"
    and "get_unsatisfied_conditions self s a p et = u_get_unsatisfied_conditions self s act params et"
    and "apply_action self s a p = u_apply self s act params"
    and "apply_unsafe self s a p = u_apply_unsafe self s act params"
  using assms
  by (simp_all add: is_applicable_def get_unsatisfied_conditions_def apply_action_def apply_unsafe_def)

lemma public_methods_unresolved:
  assumes "u_handle_parameters_polymorphism self a p = Inl e"
  shows "is_applicable self s a p = Inl e"
    and "get_unsatisfied_conditions self s a p et = Inl e"
    and "apply_action self s a p = Inl e"
    and "apply_unsafe self s a p = Inl e"
  using assms
  by (simp_all add: is_applicable_def get_unsatisfied_conditions_def apply_action_def apply_unsafe_def)

lemma handle_instance_as_schema:
  assumes "compatible_with (environment (u_problem self)) (action inst) (actual_parameters inst)"
    and "promotion_keeps (environment (u_problem self)) (actual_parameters inst)"
  shows "u_handle_parameters_polymorphism self (Action (action inst))
           (ParameterSeq (map FNodeE (actual_parameters inst)))
         = Inr (action inst, actual_parameters inst)"
  using assms by (simp add: handle_schema promoted_parameters_def promotion_keeps_def)

lemma with_problem_stores_problem:
  "u_problem (with_problem self p) = p"
  by (simp add: with_problem_def)

lemma mixin_methods_not_implemented:
  "u_get_unsatisfied_conditions (with_problem (mixin_methods nm sk er sp) pr) s act params et
     = Inl NotImplementedError
   \<and> u_apply (with_problem (mixin_methods nm sk er sp) pr) s act params = Inl NotImplementedError
   \<and> u_apply_unsafe (with_problem (mixin_methods nm sk er sp) pr) s act params
       = Inl NotImplementedError
   \<and> get_unsatisfied_goals (with_problem (mixin_methods nm sk er sp) pr) s et
       = Inl NotImplementedError
   \<and> get_initial_state (with_problem (mixin_methods nm sk er sp) pr) = Inl NotImplementedError"
  by (simp add: with_problem_def mixin_methods_def get_unsatisfied_goals_def get_initial_state_def)

lemma u_is_applicable_cases:
  "u_is_applicable self s act params =
     (case get_unsatisfied_conditions self s (Action act) (ParameterSeq (map FNodeE params)) True of
        Inr unsatisfied \<Rightarrow> Inr (unsatisfied = [])
      | Inl e \<Rightarrow> if e = UPInvalidActionError then Inr False else Inl e)"
  by (simp add: u_is_applicable_def split: sum.split error.split)

lemma is_applicable_schema_cases:
  assumes "promotion_keeps (environment (u_problem self))
             (promoted_parameters (environment (u_problem self)) parameters_arg)"
  shows "is_applicable self s (Action act) parameters_arg =
     (case get_unsatisfied_conditions self s (Action act) parameters_arg True of
        Inr unsatisfied \<Rightarrow> Inr (unsatisfied = [])
      | Inl e \<Rightarrow> if e = UPInvalidActionError then Inr False else Inl e)"
proof (cases "u_handle_parameters_polymorphism self (Action act) parameters_arg")
  case (Inl e)
  then have "e = UPUsageError" by (rule handle_error)
  with Inl show ?thesis
    by (simp add: public_methods_unresolved)
next
  case (Inr r)
  then obtain act' params where
    r: "u_handle_parameters_polymorphism self (Action act) parameters_arg = Inr (act', params)"
    by (cases r) simp
  then have ps: "params = promoted_parameters (environment (u_problem self)) parameters_arg"
    and a: "act' = act"
    by (auto simp add: handle_schema split: if_splits)
  from assms ps have keeps: "promotion_keeps (environment (u_problem self)) params" by simp
  have again: "u_handle_parameters_polymorphism self (Action act) (ParameterSeq (map FNodeE params))
           = Inr (act, params)"
    using resolved_schema_again(1) [OF r keeps] .
  have "get_unsatisfied_conditions self s (Action act) (ParameterSeq (map FNodeE params)) True
        = get_unsatisfied_conditions self s (Action act) parameters_arg True"
    using r a by (simp add: public_methods_resolved(2) [OF again] public_methods_resolved(2) [OF r])
  moreover have "is_applicable self s (Action act) parameters_arg = u_is_applicable self s act params"
    using a by (simp add: public_methods_resolved(1) [OF r])
  ultimately show ?thesis
    by (simp add: u_is_applicable_cases)
qed

lemma is_applicable_instance_cases:
  assumes "compatible_with (environment (u_problem self)) (action inst) (actual_parameters inst)"
    and "promotion_keeps (environment (u_problem self)) (actual_parameters inst)"
  shows "is_applicable self s (ActionInstance inst) NoParameters =
     (case get_unsatisfied_conditions self s (ActionInstance inst) NoParameters True of
        Inr unsatisfied \<Rightarrow> Inr (unsatisfied = [])
      | Inl e \<Rightarrow> if e = UPInvalidActionError then Inr False else Inl e)"
proof -
  note i = handle_instance [of self inst]
  note sch = handle_instance_as_schema [OF assms]
  have "get_unsatisfied_conditions self s (Action (action inst))
          (ParameterSeq (map FNodeE (actual_parameters inst))) True
        = get_unsatisfied_conditions self s (ActionInstance inst) NoParameters True"
    by (simp add: public_methods_resolved(2) [OF i] public_methods_resolved(2) [OF sch])
  then show ?thesis
    by (simp add: public_methods_resolved(1) [OF i] u_is_applicable_cases)
qed

lemma decided_cases:
  fixes r :: "error + bool" and g :: "error + 'a list"
  assumes "r = (case g of Inr unsatisfied \<Rightarrow> Inr (unsatisfied = [])
                | Inl e \<Rightarrow> if e = UPInvalidActionError then Inr False else Inl e)"
  shows "(r = Inr True \<longleftrightarrow> g = Inr [])
       \<and> (r = Inr False \<longleftrightarrow> (\<exists>c cs. g = Inr (c # cs)) \<or> g = Inl UPInvalidActionError)
       \<and> (r = Inl e \<longleftrightarrow> g = Inl e \<and> e \<noteq> UPInvalidActionError)"
  using assms by (cases g) (auto simp add: neq_Nil_conv)

subsection \<open>Applicability\<close>

text \<open>
  Claim C1. For a state, an action and a tuple of parameters, \<^verbatim>\<open>_is_applicable\<close>
  returns the truth value of "\<^verbatim>\<open>get_unsatisfied_conditions\<close>, called with
  early termination, returns the empty list": true exactly when that list is empty, false
  when it is not empty. When that call raises \<^verbatim>\<open>UPInvalidActionError\<close> the
  result is false and the error is not propagated; any other exception of the call is
  raised. The same holds of the public \<^verbatim>\<open>is_applicable\<close> for a schema and any
  parameters argument, where the second resolution of \<^verbatim>\<open>_is_applicable\<close>
  promotes the tuple once more, and for a grounded instance whose actual parameters match
  its schema.
\<close>

theorem is_applicable_iff_no_unsatisfied_conditions:
  "(u_is_applicable self s act params = Inr True \<longleftrightarrow>
      get_unsatisfied_conditions self s (Action act) (ParameterSeq (map FNodeE params)) True = Inr [])
   \<and> (u_is_applicable self s act params = Inr False \<longleftrightarrow>
      (\<exists>c cs. get_unsatisfied_conditions self s (Action act) (ParameterSeq (map FNodeE params)) True
                = Inr (c # cs))
      \<or> get_unsatisfied_conditions self s (Action act) (ParameterSeq (map FNodeE params)) True
          = Inl UPInvalidActionError)
   \<and> (u_is_applicable self s act params = Inl e \<longleftrightarrow>
      get_unsatisfied_conditions self s (Action act) (ParameterSeq (map FNodeE params)) True = Inl e
      \<and> e \<noteq> UPInvalidActionError)
   \<and> (get_unsatisfied_conditions self s (Action act) (ParameterSeq (map FNodeE params)) True
         = Inl UPInvalidActionError \<longrightarrow> u_is_applicable self s act params = Inr False)
   \<and> (promotion_keeps (environment (u_problem self))
         (promoted_parameters (environment (u_problem self)) parameters_arg) \<longrightarrow>
        (is_applicable self s (Action act) parameters_arg = Inr True \<longleftrightarrow>
           get_unsatisfied_conditions self s (Action act) parameters_arg True = Inr [])
        \<and> (is_applicable self s (Action act) parameters_arg = Inr False \<longleftrightarrow>
           (\<exists>c cs. get_unsatisfied_conditions self s (Action act) parameters_arg True = Inr (c # cs))
           \<or> get_unsatisfied_conditions self s (Action act) parameters_arg True
               = Inl UPInvalidActionError)
        \<and> (is_applicable self s (Action act) parameters_arg = Inl e \<longleftrightarrow>
           get_unsatisfied_conditions self s (Action act) parameters_arg True = Inl e
           \<and> e \<noteq> UPInvalidActionError)
        \<and> (get_unsatisfied_conditions self s (Action act) parameters_arg True = Inl UPInvalidActionError
             \<longrightarrow> is_applicable self s (Action act) parameters_arg = Inr False))
   \<and> (compatible_with (environment (u_problem self)) (action inst) (actual_parameters inst)
        \<and> promotion_keeps (environment (u_problem self)) (actual_parameters inst) \<longrightarrow>
        (is_applicable self s (ActionInstance inst) NoParameters = Inr True \<longleftrightarrow>
           get_unsatisfied_conditions self s (ActionInstance inst) NoParameters True = Inr [])
        \<and> (is_applicable self s (ActionInstance inst) NoParameters = Inr False \<longleftrightarrow>
           (\<exists>c cs. get_unsatisfied_conditions self s (ActionInstance inst) NoParameters True
                     = Inr (c # cs))
           \<or> get_unsatisfied_conditions self s (ActionInstance inst) NoParameters True
               = Inl UPInvalidActionError)
        \<and> (is_applicable self s (ActionInstance inst) NoParameters = Inl e \<longleftrightarrow>
           get_unsatisfied_conditions self s (ActionInstance inst) NoParameters True = Inl e
           \<and> e \<noteq> UPInvalidActionError))"
proof -
  note internal = decided_cases [OF u_is_applicable_cases [of self s act params], of e]
  have schema: "promotion_keeps (environment (u_problem self))
         (promoted_parameters (environment (u_problem self)) parameters_arg) \<Longrightarrow>
        (is_applicable self s (Action act) parameters_arg = Inr True \<longleftrightarrow>
           get_unsatisfied_conditions self s (Action act) parameters_arg True = Inr [])
        \<and> (is_applicable self s (Action act) parameters_arg = Inr False \<longleftrightarrow>
           (\<exists>c cs. get_unsatisfied_conditions self s (Action act) parameters_arg True = Inr (c # cs))
           \<or> get_unsatisfied_conditions self s (Action act) parameters_arg True
               = Inl UPInvalidActionError)
        \<and> (is_applicable self s (Action act) parameters_arg = Inl e \<longleftrightarrow>
           get_unsatisfied_conditions self s (Action act) parameters_arg True = Inl e
           \<and> e \<noteq> UPInvalidActionError)"
    by (rule decided_cases [OF is_applicable_schema_cases])
  have inst: "compatible_with (environment (u_problem self)) (action inst) (actual_parameters inst)
        \<and> promotion_keeps (environment (u_problem self)) (actual_parameters inst) \<Longrightarrow>
        (is_applicable self s (ActionInstance inst) NoParameters = Inr True \<longleftrightarrow>
           get_unsatisfied_conditions self s (ActionInstance inst) NoParameters True = Inr [])
        \<and> (is_applicable self s (ActionInstance inst) NoParameters = Inr False \<longleftrightarrow>
           (\<exists>c cs. get_unsatisfied_conditions self s (ActionInstance inst) NoParameters True
                     = Inr (c # cs))
           \<or> get_unsatisfied_conditions self s (ActionInstance inst) NoParameters True
               = Inl UPInvalidActionError)
        \<and> (is_applicable self s (ActionInstance inst) NoParameters = Inl e \<longleftrightarrow>
           get_unsatisfied_conditions self s (ActionInstance inst) NoParameters True = Inl e
           \<and> e \<noteq> UPInvalidActionError)"
    by (rule decided_cases [OF is_applicable_instance_cases]) simp_all
  from internal schema inst show ?thesis
    by blast
qed

theorem is_applicable_iff_no_unsatisfied_conditions_witness:
  "u_is_applicable demo ''A'' move [location ''B''] = Inr True
   \<and> get_unsatisfied_conditions demo ''A'' (Action move) (ParameterSeq (map FNodeE [location ''A''])) True
       = Inr [\<lparr>content = ''at(robot) != to'', fnode_type = ''bool''\<rparr>]
   \<and> u_is_applicable demo ''A'' move [location ''A''] = Inr False
   \<and> get_unsatisfied_conditions demo ''A'' (Action move)
         (ParameterSeq (map FNodeE [location ''C''])) True = Inl UPInvalidActionError
   \<and> u_is_applicable demo ''A'' move [location ''C''] = Inr False
   \<and> promotion_keeps (environment (u_problem demo))
         (promoted_parameters (environment (u_problem demo)) (OneParameter (OtherE ''C'')))
   \<and> get_unsatisfied_conditions demo ''A'' (Action move) (OneParameter (OtherE ''C'')) True
         = Inl UPInvalidActionError
   \<and> is_applicable demo ''A'' (Action move) (OneParameter (OtherE ''C'')) = Inr False
   \<and> compatible_with (environment (u_problem demo)) (action (move_to ''A''))
        (actual_parameters (move_to ''A''))
   \<and> promotion_keeps (environment (u_problem demo)) (actual_parameters (move_to ''A''))
   \<and> is_applicable demo ''A'' (ActionInstance (move_to ''A'')) NoParameters = Inr False
   \<and> is_applicable demo ''A'' (ActionInstance (move_to ''B'')) NoParameters = Inr True"
  using is_applicable_iff_no_unsatisfied_conditions [of demo "''A''" move "[location ''C'']" UPUsageError "OneParameter (OtherE ''C'')" "move_to ''A''"]
    is_applicable_iff_no_unsatisfied_conditions [of demo "''A''" move "[location ''B'']" UPUsageError "OneParameter (OtherE ''C'')" "move_to ''B''"]
    is_applicable_iff_no_unsatisfied_conditions [of demo "''A''" move "[location ''A'']" UPUsageError "OneParameter (OtherE ''C'')" "move_to ''A''"]
  by (simp add: move_to_def compatible_with_def demo_defs method_defs promotion_keeps_def
      promoted_parameters_def)

subsection \<open>Application\<close>

text \<open>
  Claim C2, as amended. With the \<^verbatim>\<open>_apply\<close> the spec describes,
  \<^verbatim>\<open>apply\<close> returns \<^verbatim>\<open>None\<close> whenever
  \<^verbatim>\<open>is_applicable\<close> is false, and when \<^verbatim>\<open>is_applicable\<close> is true
  it returns what \<^verbatim>\<open>apply_unsafe\<close> returns. So \<^verbatim>\<open>apply\<close> returns
  \<^verbatim>\<open>None\<close> exactly when the action is not applicable, or it is applicable and
  the unsafe path returns \<^verbatim>\<open>None\<close> (conflicting effects). An exception of the
  applicability check is raised by \<^verbatim>\<open>apply\<close> as well.
\<close>

theorem apply_checks_applicability_then_delegates:
  "(is_applicable (with_spec_apply self) s a p = Inr False
      \<longrightarrow> apply_action (with_spec_apply self) s a p = Inr None)
   \<and> (is_applicable (with_spec_apply self) s a p = Inr True
      \<longrightarrow> apply_action (with_spec_apply self) s a p = apply_unsafe (with_spec_apply self) s a p)
   \<and> (apply_action (with_spec_apply self) s a p = Inr None \<longleftrightarrow>
        is_applicable (with_spec_apply self) s a p = Inr False
        \<or> (is_applicable (with_spec_apply self) s a p = Inr True
            \<and> apply_unsafe (with_spec_apply self) s a p = Inr None))
   \<and> (is_applicable (with_spec_apply self) s a p = Inl e
      \<longrightarrow> apply_action (with_spec_apply self) s a p = Inl e)"
proof (cases "u_handle_parameters_polymorphism self a p")
  case (Inl e)
  then show ?thesis
    by (simp add: spec_apply_keeps_is_applicable spec_apply_keeps_apply_unsafe apply_action_spec
        public_methods_unresolved)
next
  case (Inr r)
  then obtain act params where r: "u_handle_parameters_polymorphism self a p = Inr (act, params)"
    by (cases r) simp
  show ?thesis
    by (cases "u_is_applicable self s act params")
       (auto simp add: spec_apply_keeps_is_applicable spec_apply_keeps_apply_unsafe
         apply_action_spec r public_methods_resolved [OF r] spec_u_apply_def split: bool.splits)
qed

theorem apply_checks_applicability_then_delegates_witness:
  "is_applicable (with_spec_apply demo) ''A'' (Action move) (OneParameter (OtherE ''A'')) = Inr False
   \<and> apply_action (with_spec_apply demo) ''A'' (Action move) (OneParameter (OtherE ''A'')) = Inr None
   \<and> is_applicable (with_spec_apply demo) ''A'' (Action move) (OneParameter (OtherE ''B'')) = Inr True
   \<and> apply_action (with_spec_apply demo) ''A'' (Action move) (OneParameter (OtherE ''B'')) = Inr (Some ''B'')"
  using apply_checks_applicability_then_delegates [of demo "''A''" "Action move" "OneParameter (OtherE ''A'')"]
    apply_checks_applicability_then_delegates [of demo "''A''" "Action move" "OneParameter (OtherE ''B'')"]
  by (simp add: spec_apply_keeps_is_applicable spec_apply_keeps_apply_unsafe demo_defs method_defs)

text \<open>
  Claim C2 as stated, that \<^verbatim>\<open>apply\<close> returns \<^verbatim>\<open>None\<close> only if the
  action is not applicable, fails for an applicable action whose effects conflict.
\<close>

theorem apply_absent_although_applicable:
  "apply_action (with_spec_apply demo) ''A'' (Action clash) NoParameters = Inr None
   \<and> is_applicable (with_spec_apply demo) ''A'' (Action clash) NoParameters = Inr True"
  by (simp add: spec_apply_keeps_is_applicable apply_action_spec spec_u_apply_def
      demo_defs method_defs)

subsection \<open>Grounding resolution at the public methods\<close>

text \<open>
  Claim C3. Each of \<^verbatim>\<open>is_applicable\<close>,
  \<^verbatim>\<open>get_unsatisfied_conditions\<close>, \<^verbatim>\<open>apply\<close> and
  \<^verbatim>\<open>apply_unsafe\<close>, called with a grounded instance and a parameters argument
  other than \<^verbatim>\<open>None\<close>, raises \<^verbatim>\<open>UPUsageError\<close>.
\<close>

theorem instance_with_parameters_raises_usage_error:
  "parameters_arg \<noteq> NoParameters \<Longrightarrow>
     is_applicable self s (ActionInstance inst) parameters_arg = Inl UPUsageError
   \<and> get_unsatisfied_conditions self s (ActionInstance inst) parameters_arg early_termination
         = Inl UPUsageError
   \<and> apply_action self s (ActionInstance inst) parameters_arg = Inl UPUsageError
   \<and> apply_unsafe self s (ActionInstance inst) parameters_arg = Inl UPUsageError"
  by (simp add: is_applicable_def get_unsatisfied_conditions_def apply_action_def
      apply_unsafe_def handle_instance_with_parameters)

theorem instance_with_parameters_raises_usage_error_witness:
  "ParameterSeq [] \<noteq> (NoParameters :: (string, string, string) parameters_arg)
   \<and> is_applicable demo ''A'' (ActionInstance \<lparr>action = move, actual_parameters = [location ''B'']\<rparr>)
         (ParameterSeq []) = Inl UPUsageError
   \<and> apply_action demo ''A'' (ActionInstance \<lparr>action = move, actual_parameters = [location ''B'']\<rparr>)
         (ParameterSeq []) = Inl UPUsageError"
  using instance_with_parameters_raises_usage_error [of "ParameterSeq []" demo "''A''" "\<lparr>action = move, actual_parameters = [location ''B'']\<rparr>" True]
  by simp

text \<open>
  Claim C4. For a schema, the resolution promotes the given parameters. It raises
  \<^verbatim>\<open>UPUsageError\<close> when the number of promoted parameters differs from the
  number the schema declares, and when at some position the declared type is not
  compatible with the type of the promoted parameter; otherwise it returns the schema
  paired with the promoted parameters, in their order. When the resolution raises
  \<^verbatim>\<open>UPUsageError\<close>, so does each public method.
\<close>

theorem schema_parameters_promoted_and_checked:
  "(length (promoted_parameters (environment (u_problem self)) parameters_arg) \<noteq> length (parameters act)
      \<longrightarrow> u_handle_parameters_polymorphism self (Action act) parameters_arg = Inl UPUsageError)
   \<and> ((\<exists>i. i < length (promoted_parameters (environment (u_problem self)) parameters_arg)
           \<and> i < length (parameters act)
           \<and> \<not> is_compatible (environment (u_problem self)) (param_type (parameters act ! i))
                 (fnode_type (promoted_parameters (environment (u_problem self)) parameters_arg ! i)))
      \<longrightarrow> u_handle_parameters_polymorphism self (Action act) parameters_arg = Inl UPUsageError)
   \<and> (length (promoted_parameters (environment (u_problem self)) parameters_arg) = length (parameters act)
        \<and> (\<forall>i. i < length (parameters act) \<longrightarrow>
              is_compatible (environment (u_problem self)) (param_type (parameters act ! i))
                 (fnode_type (promoted_parameters (environment (u_problem self)) parameters_arg ! i)))
      \<longrightarrow> u_handle_parameters_polymorphism self (Action act) parameters_arg
            = Inr (act, promoted_parameters (environment (u_problem self)) parameters_arg))
   \<and> (u_handle_parameters_polymorphism self (Action act) parameters_arg = Inl UPUsageError
      \<longrightarrow> is_applicable self s (Action act) parameters_arg = Inl UPUsageError
        \<and> get_unsatisfied_conditions self s (Action act) parameters_arg early_termination = Inl UPUsageError
        \<and> apply_action self s (Action act) parameters_arg = Inl UPUsageError
        \<and> apply_unsafe self s (Action act) parameters_arg = Inl UPUsageError)"
proof (intro conjI impI)
  let ?env = "environment (u_problem self)"
  let ?ps = "promoted_parameters ?env parameters_arg"
  {
    assume "length ?ps \<noteq> length (parameters act)"
    then show "u_handle_parameters_polymorphism self (Action act) parameters_arg = Inl UPUsageError"
      by (simp add: handle_schema compatible_with_nth)
  }
  {
    assume "\<exists>i. i < length ?ps \<and> i < length (parameters act)
           \<and> \<not> is_compatible ?env (param_type (parameters act ! i)) (fnode_type (?ps ! i))"
    then have "\<not> compatible_with ?env act ?ps"
      by (auto simp add: compatible_with_nth)
    then show "u_handle_parameters_polymorphism self (Action act) parameters_arg = Inl UPUsageError"
      by (simp add: handle_schema)
  }
  {
    assume "length ?ps = length (parameters act)
        \<and> (\<forall>i. i < length (parameters act) \<longrightarrow>
              is_compatible ?env (param_type (parameters act ! i)) (fnode_type (?ps ! i)))"
    then have "compatible_with ?env act ?ps"
      by (simp add: compatible_with_nth)
    then show "u_handle_parameters_polymorphism self (Action act) parameters_arg = Inr (act, ?ps)"
      by (simp add: handle_schema)
  }
  assume e: "u_handle_parameters_polymorphism self (Action act) parameters_arg = Inl UPUsageError"
  show "is_applicable self s (Action act) parameters_arg = Inl UPUsageError"
    by (simp add: is_applicable_def e)
  show "get_unsatisfied_conditions self s (Action act) parameters_arg early_termination = Inl UPUsageError"
    by (simp add: get_unsatisfied_conditions_def e)
  show "apply_action self s (Action act) parameters_arg = Inl UPUsageError"
    by (simp add: apply_action_def e)
  show "apply_unsafe self s (Action act) parameters_arg = Inl UPUsageError"
    by (simp add: apply_unsafe_def e)
qed

theorem schema_parameters_promoted_and_checked_witness:
  "length (promoted_parameters (environment (u_problem demo)) (ParameterSeq [])) \<noteq> length (parameters move)
   \<and> u_handle_parameters_polymorphism demo (Action move) (ParameterSeq []) = Inl UPUsageError
   \<and> apply_action demo ''A'' (Action move) (ParameterSeq []) = Inl UPUsageError
   \<and> \<not> is_compatible (environment (u_problem demo)) (param_type (parameters move ! 0))
         (fnode_type (promoted_parameters (environment (u_problem demo))
            (OneParameter (FNodeE \<lparr>content = ''B'', fnode_type = ''int''\<rparr>)) ! 0))
   \<and> u_handle_parameters_polymorphism demo (Action move)
        (OneParameter (FNodeE \<lparr>content = ''B'', fnode_type = ''int''\<rparr>)) = Inl UPUsageError
   \<and> is_applicable demo ''A'' (Action move)
        (OneParameter (FNodeE \<lparr>content = ''B'', fnode_type = ''int''\<rparr>)) = Inl UPUsageError
   \<and> u_handle_parameters_polymorphism demo (Action move) (ParameterSeq [OtherE ''B''])
        = Inr (move, [location ''B''])"
  using schema_parameters_promoted_and_checked [of demo "ParameterSeq []" move "''A''" True]
    schema_parameters_promoted_and_checked [of demo "OneParameter (FNodeE \<lparr>content = ''B'', fnode_type = ''int''\<rparr>)" move "''A''" True]
    schema_parameters_promoted_and_checked [of demo "ParameterSeq [OtherE ''B'']" move "''A''" True]
  by (simp add: promoted_parameters_def demo_defs method_defs)

text \<open>
  Claim C5, as amended. Every public method resolves its arguments first and hands the
  resolved pair to the method behind it. For an instance whose actual parameters match the
  schema in number and type and are left as they are by auto-promotion, each public method
  gives the same result on the instance as on the instance's schema with its tuple of
  actual parameters.
\<close>

theorem instance_form_agrees_with_schema_form:
  "(u_handle_parameters_polymorphism self a p = Inr (act, params) \<longrightarrow>
      is_applicable self s a p = u_is_applicable self s act params
      \<and> get_unsatisfied_conditions self s a p et = u_get_unsatisfied_conditions self s act params et
      \<and> apply_action self s a p = u_apply self s act params
      \<and> apply_unsafe self s a p = u_apply_unsafe self s act params)
   \<and> (compatible_with (environment (u_problem self)) (action inst) (actual_parameters inst)
        \<and> promotion_keeps (environment (u_problem self)) (actual_parameters inst) \<longrightarrow>
      is_applicable self s (ActionInstance inst) NoParameters
        = is_applicable self s (Action (action inst)) (ParameterSeq (map FNodeE (actual_parameters inst)))
      \<and> get_unsatisfied_conditions self s (ActionInstance inst) NoParameters et
        = get_unsatisfied_conditions self s (Action (action inst))
            (ParameterSeq (map FNodeE (actual_parameters inst))) et
      \<and> apply_action self s (ActionInstance inst) NoParameters
        = apply_action self s (Action (action inst)) (ParameterSeq (map FNodeE (actual_parameters inst)))
      \<and> apply_unsafe self s (ActionInstance inst) NoParameters
        = apply_unsafe self s (Action (action inst)) (ParameterSeq (map FNodeE (actual_parameters inst))))"
proof (intro conjI impI)
  assume r: "u_handle_parameters_polymorphism self a p = Inr (act, params)"
  show "is_applicable self s a p = u_is_applicable self s act params"
    and "get_unsatisfied_conditions self s a p et = u_get_unsatisfied_conditions self s act params et"
    and "apply_action self s a p = u_apply self s act params"
    and "apply_unsafe self s a p = u_apply_unsafe self s act params"
    by (rule public_methods_resolved [OF r])+
next
  assume wf: "compatible_with (environment (u_problem self)) (action inst) (actual_parameters inst)
        \<and> promotion_keeps (environment (u_problem self)) (actual_parameters inst)"
  note i = handle_instance [of self inst]
  have sch: "u_handle_parameters_polymorphism self (Action (action inst))
           (ParameterSeq (map FNodeE (actual_parameters inst)))
         = Inr (action inst, actual_parameters inst)"
    using wf by (simp add: handle_instance_as_schema)
  show "is_applicable self s (ActionInstance inst) NoParameters
        = is_applicable self s (Action (action inst)) (ParameterSeq (map FNodeE (actual_parameters inst)))"
    by (simp add: public_methods_resolved(1) [OF i] public_methods_resolved(1) [OF sch])
  show "get_unsatisfied_conditions self s (ActionInstance inst) NoParameters et
        = get_unsatisfied_conditions self s (Action (action inst))
            (ParameterSeq (map FNodeE (actual_parameters inst))) et"
    by (simp add: public_methods_resolved(2) [OF i] public_methods_resolved(2) [OF sch])
  show "apply_action self s (ActionInstance inst) NoParameters
        = apply_action self s (Action (action inst)) (ParameterSeq (map FNodeE (actual_parameters inst)))"
    by (simp add: public_methods_resolved(3) [OF i] public_methods_resolved(3) [OF sch])
  show "apply_unsafe self s (ActionInstance inst) NoParameters
        = apply_unsafe self s (Action (action inst)) (ParameterSeq (map FNodeE (actual_parameters inst)))"
    by (simp add: public_methods_resolved(4) [OF i] public_methods_resolved(4) [OF sch])
qed

theorem instance_form_agrees_with_schema_form_witness:
  "u_handle_parameters_polymorphism demo (ActionInstance (move_to ''B'')) NoParameters
     = Inr (move, [location ''B''])
   \<and> compatible_with (environment (u_problem demo)) (action (move_to ''B''))
        (actual_parameters (move_to ''B''))
   \<and> promotion_keeps (environment (u_problem demo)) (actual_parameters (move_to ''B''))
   \<and> apply_unsafe demo ''A'' (ActionInstance (move_to ''B'')) NoParameters = Inr (Some ''B'')
   \<and> apply_unsafe demo ''A'' (Action (action (move_to ''B'')))
        (ParameterSeq (map FNodeE (actual_parameters (move_to ''B'')))) = Inr (Some ''B'')
   \<and> is_applicable demo ''A'' (ActionInstance (move_to ''B'')) NoParameters = Inr True
   \<and> is_applicable demo ''A'' (Action (action (move_to ''B'')))
        (ParameterSeq (map FNodeE (actual_parameters (move_to ''B'')))) = Inr True"
  using instance_form_agrees_with_schema_form [of demo "ActionInstance (move_to ''B'')" NoParameters move "[location ''B'']" "''A''" True
      "move_to ''B''"]
  by (simp add: move_to_def compatible_with_def promotion_keeps_def demo_defs method_defs)

text \<open>
  Claim C5 as stated, for every grounded instance, fails for an instance whose parameter
  has a type the schema does not accept: the instance form reaches the engine, the schema
  form raises \<^verbatim>\<open>UPUsageError\<close>.
\<close>

theorem mistyped_instance_forms_differ:
  "apply_unsafe demo ''A'' (ActionInstance mistyped_move) NoParameters = Inr (Some ''B'')
   \<and> apply_unsafe demo ''A'' (Action (action mistyped_move))
         (ParameterSeq (map FNodeE (actual_parameters mistyped_move))) = Inl UPUsageError"
  by (simp add: mistyped_move_def demo_defs method_defs)

text \<open>
  Claim C8, as amended. For a grounded instance with parameters \<^verbatim>\<open>None\<close> the
  resolution returns the action and the actual parameters of the instance with no check
  of their number or types; \<^verbatim>\<open>get_unsatisfied_conditions\<close>,
  \<^verbatim>\<open>apply\<close> and \<^verbatim>\<open>apply_unsafe\<close> hand that pair to the engine as
  it is. \<^verbatim>\<open>is_applicable\<close> hands it to \<^verbatim>\<open>_is_applicable\<close>, whose
  call of the public \<^verbatim>\<open>get_unsatisfied_conditions\<close> resolves the schema with
  the tuple once more: when the promoted tuple does not match the schema in number or
  type, \<^verbatim>\<open>is_applicable\<close> raises \<^verbatim>\<open>UPUsageError\<close>.
\<close>

theorem instance_resolution_is_unchecked:
  "u_handle_parameters_polymorphism self (ActionInstance inst) NoParameters
     = Inr (action inst, actual_parameters inst)
   \<and> get_unsatisfied_conditions self s (ActionInstance inst) NoParameters et
       = u_get_unsatisfied_conditions self s (action inst) (actual_parameters inst) et
   \<and> apply_action self s (ActionInstance inst) NoParameters
       = u_apply self s (action inst) (actual_parameters inst)
   \<and> apply_unsafe self s (ActionInstance inst) NoParameters
       = u_apply_unsafe self s (action inst) (actual_parameters inst)
   \<and> is_applicable self s (ActionInstance inst) NoParameters
       = u_is_applicable self s (action inst) (actual_parameters inst)
   \<and> (\<not> compatible_with (environment (u_problem self)) (action inst)
           (auto_promote (environment (u_problem self)) (map FNodeE (actual_parameters inst)))
      \<longrightarrow> is_applicable self s (ActionInstance inst) NoParameters = Inl UPUsageError)"
proof -
  note i = handle_instance [of self inst]
  have "\<not> compatible_with (environment (u_problem self)) (action inst)
           (auto_promote (environment (u_problem self)) (map FNodeE (actual_parameters inst)))
      \<Longrightarrow> u_is_applicable self s (action inst) (actual_parameters inst) = Inl UPUsageError"
    by (simp add: u_is_applicable_def get_unsatisfied_conditions_def handle_schema
        promoted_parameters_def)
  then show ?thesis
    by (simp add: i public_methods_resolved [OF i])
qed

theorem instance_resolution_is_unchecked_witness:
  "\<not> compatible_with (environment (u_problem demo)) (action overfull_clash)
        (auto_promote (environment (u_problem demo)) (map FNodeE (actual_parameters overfull_clash)))
   \<and> is_applicable demo ''A'' (ActionInstance overfull_clash) NoParameters = Inl UPUsageError
   \<and> apply_unsafe demo ''A'' (ActionInstance overfull_clash) NoParameters = Inr None
   \<and> get_unsatisfied_conditions demo ''A'' (ActionInstance overfull_clash) NoParameters True = Inr []"
  using instance_resolution_is_unchecked [of demo overfull_clash "''A''" True]
  by (simp add: overfull_clash_def compatible_with_def demo_defs method_defs)

text \<open>
  Claim C8 as stated, that a mismatched instance never raises \<^verbatim>\<open>UPUsageError\<close>
  at a public method, fails at \<^verbatim>\<open>is_applicable\<close>, for a wrong type and for a
  wrong number of parameters.
\<close>

theorem mismatched_instance_raises_in_is_applicable:
  "is_applicable demo ''A'' (ActionInstance mistyped_move) NoParameters = Inl UPUsageError
   \<and> is_applicable demo ''A'' (ActionInstance overfull_clash) NoParameters = Inl UPUsageError"
  by (simp add: mistyped_move_def overfull_clash_def demo_defs method_defs)

subsection \<open>Forms of the parameters argument\<close>

text \<open>
  Claim C10. At every public method, one parameter that is not a sequence gives the same
  result as the sequence holding just that parameter; and for a schema,
  \<^verbatim>\<open>None\<close> gives the same result as the empty sequence, the resolved tuple
  being empty, where auto-promotion maps the empty sequence to the empty sequence.
\<close>

theorem parameter_forms_are_canonical:
  "is_applicable self s a (OneParameter x) = is_applicable self s a (ParameterSeq [x])
   \<and> get_unsatisfied_conditions self s a (OneParameter x) et
       = get_unsatisfied_conditions self s a (ParameterSeq [x]) et
   \<and> apply_action self s a (OneParameter x) = apply_action self s a (ParameterSeq [x])
   \<and> apply_unsafe self s a (OneParameter x) = apply_unsafe self s a (ParameterSeq [x])
   \<and> (auto_promote (environment (u_problem self)) [] = [] \<longrightarrow>
        u_handle_parameters_polymorphism self (Action act) NoParameters
          = u_handle_parameters_polymorphism self (Action act) (ParameterSeq [])
        \<and> (parameters act = [] \<longrightarrow>
             u_handle_parameters_polymorphism self (Action act) NoParameters = Inr (act, []))
        \<and> is_applicable self s (Action act) NoParameters
            = is_applicable self s (Action act) (ParameterSeq [])
        \<and> get_unsatisfied_conditions self s (Action act) NoParameters et
            = get_unsatisfied_conditions self s (Action act) (ParameterSeq []) et
        \<and> apply_action self s (Action act) NoParameters
            = apply_action self s (Action act) (ParameterSeq [])
        \<and> apply_unsafe self s (Action act) NoParameters
            = apply_unsafe self s (Action act) (ParameterSeq []))"
proof -
  have one: "u_handle_parameters_polymorphism self a (OneParameter x)
             = u_handle_parameters_polymorphism self a (ParameterSeq [x])"
    by (cases a) (simp_all add: u_handle_parameters_polymorphism_def)
  have none: "auto_promote (environment (u_problem self)) [] = [] \<Longrightarrow>
        u_handle_parameters_polymorphism self (Action act) NoParameters
          = u_handle_parameters_polymorphism self (Action act) (ParameterSeq [])"
    by (simp add: u_handle_parameters_polymorphism_def)
  have empty_seq: "auto_promote (environment (u_problem self)) [] = [] \<Longrightarrow> parameters act = [] \<Longrightarrow>
      u_handle_parameters_polymorphism self (Action act) (ParameterSeq []) = Inr (act, [])"
    by (simp add: u_handle_parameters_polymorphism_def)
  show ?thesis
    by (simp add: is_applicable_def get_unsatisfied_conditions_def apply_action_def
        apply_unsafe_def one none empty_seq)
qed

theorem parameter_forms_are_canonical_witness:
  "auto_promote (environment (u_problem demo)) [] = []
   \<and> parameters clash = []
   \<and> u_handle_parameters_polymorphism demo (Action clash) NoParameters = Inr (clash, [])
   \<and> u_handle_parameters_polymorphism demo (Action clash) (ParameterSeq []) = Inr (clash, [])
   \<and> apply_unsafe demo ''A'' (Action clash) NoParameters = Inr None
   \<and> apply_unsafe demo ''A'' (Action clash) (ParameterSeq []) = Inr None
   \<and> is_applicable demo ''A'' (Action move) (OneParameter (OtherE ''B'')) = Inr True
   \<and> is_applicable demo ''A'' (Action move) (ParameterSeq [OtherE ''B'']) = Inr True"
  using parameter_forms_are_canonical [of demo "''A''" "Action move" "OtherE ''B''" True clash]
  by (simp add: demo_defs method_defs)

subsection \<open>Goals\<close>

text \<open>
  Claim C6. \<^verbatim>\<open>is_goal\<close> returns true exactly when
  \<^verbatim>\<open>get_unsatisfied_goals\<close> with early termination returns the empty list; it
  returns false exactly when that list is not empty, and raises exactly what that call raises.
\<close>

theorem is_goal_iff_no_unsatisfied_goals:
  "(is_goal self s = Inr True \<longleftrightarrow> get_unsatisfied_goals self s True = Inr [])
   \<and> (is_goal self s = Inr False \<longleftrightarrow>
        (\<exists>g gs. get_unsatisfied_goals self s True = Inr (g # gs)))
   \<and> (is_goal self s = Inl e \<longleftrightarrow> get_unsatisfied_goals self s True = Inl e)"
  by (auto simp add: is_goal_def u_is_goal_def split: sum.splits) (metis list.exhaust)+

theorem is_goal_iff_no_unsatisfied_goals_witness:
  "get_unsatisfied_goals demo ''B'' True = Inr []
   \<and> is_goal demo ''B'' = Inr True
   \<and> is_goal demo ''A'' = Inr False"
  using is_goal_iff_no_unsatisfied_goals [of demo "''B''" UPUsageError] is_goal_iff_no_unsatisfied_goals [of demo "''A''" UPUsageError]
  by (simp add: demo_defs method_defs)

subsection \<open>Errors\<close>

text \<open>
  Claim C7. A \<^verbatim>\<open>UPUsageError\<close> of the grounding resolution is raised by each
  public method. \<^verbatim>\<open>_is_applicable\<close> turns \<^verbatim>\<open>UPInvalidActionError\<close>
  into false and raises every other exception of the condition evaluation, among them
  \<^verbatim>\<open>UPUsageError\<close>. \<^verbatim>\<open>get_unsatisfied_conditions\<close> raises whatever
  the engine's evaluation raises, \<^verbatim>\<open>UPInvalidActionError\<close> included. The last
  part is the same for the public \<^verbatim>\<open>is_applicable\<close> and, with the
  \<^verbatim>\<open>_apply\<close> the spec describes, for \<^verbatim>\<open>apply\<close>, which then returns
  \<^verbatim>\<open>None\<close>.
\<close>

theorem usage_error_propagates_invalid_action_is_caught:
  "(u_handle_parameters_polymorphism self a p = Inl UPUsageError \<longrightarrow>
      is_applicable self s a p = Inl UPUsageError
      \<and> get_unsatisfied_conditions self s a p et = Inl UPUsageError
      \<and> apply_action self s a p = Inl UPUsageError
      \<and> apply_unsafe self s a p = Inl UPUsageError)
   \<and> (get_unsatisfied_conditions self s (Action act) (ParameterSeq (map FNodeE params)) True = Inl e \<longrightarrow>
        u_is_applicable self s act params = (if e = UPInvalidActionError then Inr False else Inl e))
   \<and> (u_handle_parameters_polymorphism self a p = Inr (act, params)
        \<and> u_get_unsatisfied_conditions self s act params et = Inl e \<longrightarrow>
        get_unsatisfied_conditions self s a p et = Inl e)
   \<and> (u_handle_parameters_polymorphism self a p = Inr (act, params)
        \<and> get_unsatisfied_conditions self s (Action act) (ParameterSeq (map FNodeE params)) True = Inl e \<longrightarrow>
        is_applicable self s a p = (if e = UPInvalidActionError then Inr False else Inl e)
        \<and> apply_action (with_spec_apply self) s a p
            = (if e = UPInvalidActionError then Inr None else Inl e))"
proof (intro conjI impI)
  assume "u_handle_parameters_polymorphism self a p = Inl UPUsageError"
  then show "is_applicable self s a p = Inl UPUsageError"
    and "get_unsatisfied_conditions self s a p et = Inl UPUsageError"
    and "apply_action self s a p = Inl UPUsageError"
    and "apply_unsafe self s a p = Inl UPUsageError"
    by (simp_all add: public_methods_unresolved)
next
  assume "get_unsatisfied_conditions self s (Action act) (ParameterSeq (map FNodeE params)) True = Inl e"
  then show "u_is_applicable self s act params = (if e = UPInvalidActionError then Inr False else Inl e)"
    by (cases e) (simp_all add: u_is_applicable_def)
next
  assume "u_handle_parameters_polymorphism self a p = Inr (act, params)
        \<and> u_get_unsatisfied_conditions self s act params et = Inl e"
  then show "get_unsatisfied_conditions self s a p et = Inl e"
    by (simp add: public_methods_resolved)
next
  assume h: "u_handle_parameters_polymorphism self a p = Inr (act, params)
        \<and> get_unsatisfied_conditions self s (Action act) (ParameterSeq (map FNodeE params)) True = Inl e"
  then have u: "u_is_applicable self s act params = (if e = UPInvalidActionError then Inr False else Inl e)"
    by (cases e) (simp_all add: u_is_applicable_def)
  from h u show "is_applicable self s a p = (if e = UPInvalidActionError then Inr False else Inl e)"
    by (simp add: public_methods_resolved)
  from h u show "apply_action (with_spec_apply self) s a p
            = (if e = UPInvalidActionError then Inr None else Inl e)"
    by (simp add: apply_action_spec spec_u_apply_def)
qed

theorem usage_error_propagates_invalid_action_is_caught_witness:
  "u_handle_parameters_polymorphism demo (ActionInstance (move_to ''B'')) (ParameterSeq []) = Inl UPUsageError
   \<and> is_applicable demo ''A'' (ActionInstance (move_to ''B'')) (ParameterSeq []) = Inl UPUsageError
   \<and> apply_action demo ''A'' (ActionInstance (move_to ''B'')) (ParameterSeq []) = Inl UPUsageError
   \<and> u_handle_parameters_polymorphism demo (Action move) (OneParameter (OtherE ''C''))
        = Inr (move, [location ''C''])
   \<and> u_get_unsatisfied_conditions demo ''A'' move [location ''C''] False = Inl UPInvalidActionError
   \<and> get_unsatisfied_conditions demo ''A'' (Action move) (OneParameter (OtherE ''C'')) False
        = Inl UPInvalidActionError
   \<and> get_unsatisfied_conditions demo ''A'' (Action move) (ParameterSeq (map FNodeE [location ''C''])) True
        = Inl UPInvalidActionError
   \<and> u_is_applicable demo ''A'' move [location ''C''] = Inr False
   \<and> is_applicable demo ''A'' (Action move) (OneParameter (OtherE ''C'')) = Inr False
   \<and> apply_action (with_spec_apply demo) ''A'' (Action move) (OneParameter (OtherE ''C'')) = Inr None"
  using usage_error_propagates_invalid_action_is_caught [of demo "ActionInstance (move_to ''B'')" "ParameterSeq []" "''A''" False move
      "[location ''C'']" UPInvalidActionError]
    usage_error_propagates_invalid_action_is_caught [of demo "Action move" "OneParameter (OtherE ''C'')" "''A''" False move
      "[location ''C'']" UPInvalidActionError]
  by (simp add: move_to_def demo_defs method_defs)

subsection \<open>Construction\<close>

text \<open>
  Claim C9. For an engine, the constructor raises \<^verbatim>\<open>UPUsageError\<close> when the
  checks are not skipped, the kind of the problem is not supported and
  \<^verbatim>\<open>error_on_failed_checks\<close> is set; with the flag not set it emits one warning
  and the object is constructed; when the kind is supported or the checks are skipped
  the object is constructed with no warning.
\<close>

theorem init_checks_problem_kind:
  "is_engine self \<Longrightarrow>
     (\<not> skip_checks self \<and> \<not> supports self (kind p) \<and> error_on_failed_checks self
        \<longrightarrow> init self p = Inl UPUsageError)
   \<and> (\<not> skip_checks self \<and> \<not> supports self (kind p) \<and> \<not> error_on_failed_checks self
        \<longrightarrow> init self p = Inr (with_problem self p, [failed_check_msg (engine_name self)]))
   \<and> (skip_checks self \<or> supports self (kind p) \<longrightarrow> init self p = Inr (with_problem self p, []))"
  by (auto simp add: init_def)

theorem init_checks_problem_kind_witness:
  "is_engine demo_engine
   \<and> \<not> skip_checks demo_engine \<and> \<not> supports demo_engine (kind (demo_problem\<lparr>kind := ''temporal''\<rparr>))
   \<and> error_on_failed_checks demo_engine
   \<and> init demo_engine (demo_problem\<lparr>kind := ''temporal''\<rparr>) = Inl UPUsageError
   \<and> \<not> error_on_failed_checks (demo_engine\<lparr>error_on_failed_checks := False\<rparr>)
   \<and> init (demo_engine\<lparr>error_on_failed_checks := False\<rparr>) (demo_problem\<lparr>kind := ''temporal''\<rparr>)
       = Inr (with_problem (demo_engine\<lparr>error_on_failed_checks := False\<rparr>)
                (demo_problem\<lparr>kind := ''temporal''\<rparr>),
              [''We cannot establish whether demo is able to handle this problem!''])
   \<and> supports demo_engine (kind demo_problem)
   \<and> init demo_engine demo_problem = Inr (demo, [])
   \<and> skip_checks (demo_engine\<lparr>skip_checks := True\<rparr>)
   \<and> init (demo_engine\<lparr>skip_checks := True\<rparr>) (demo_problem\<lparr>kind := ''temporal''\<rparr>)
       = Inr (with_problem (demo_engine\<lparr>skip_checks := True\<rparr>) (demo_problem\<lparr>kind := ''temporal''\<rparr>), [])"
  using init_checks_problem_kind [of demo_engine "demo_problem\<lparr>kind := ''temporal''\<rparr>"]
    init_checks_problem_kind [of "demo_engine\<lparr>error_on_failed_checks := False\<rparr>" "demo_problem\<lparr>kind := ''temporal''\<rparr>"]
    init_checks_problem_kind [of demo_engine demo_problem]
    init_checks_problem_kind [of "demo_engine\<lparr>skip_checks := True\<rparr>" "demo_problem\<lparr>kind := ''temporal''\<rparr>"]
  by (simp add: demo_def demo_engine_def demo_problem_def failed_check_msg_def)

end
